theory Spec2Isabelle
  imports Main
begin

section \<open>Data model\<close>

text \<open>
  A retrieved chunk is a LangChain \<open>Document\<close>: its text (\<open>page_content\<close>) and a metadata
  dictionary. The only key the program reads is \<open>"source"\<close>, whose value is a filename.
\<close>

record document =
  page_content :: string
  metadata :: "string \<rightharpoonup> string"

text \<open>
  An exception raised by an external client (embedding, vector store, LLM, PDF parser).
  The program only ever looks at \<open>str(e)\<close>, which is what the value carries.
\<close>

datatype py_exception = PyException (str: string)

text \<open>\<open>fastapi.HTTPException(status_code, detail)\<close>, raised by this program only.\<close>

datatype http_exception = HTTPException (status_code: nat) (detail: string)

text \<open>One entry of the \<open>sources\<close> list, and the dictionary \<open>generate_answer\<close> returns.\<close>

record source_entry =
  source :: string
  content :: string

record rag_answer =
  answer :: string
  sources :: "source_entry list"

text \<open>
  A chat model object. Each object of \<open>self.llms\<close> is invoked at most once during one
  call of \<open>generate_answer\<close>, so its behaviour during that call is the outcome of this one
  invocation on the rendered prompt: the generated text, or the exception raised.
\<close>

type_synonym llm = "string \<Rightarrow> py_exception + string"

record rag_service =
  model_names :: "string list"
  llms :: "llm list"

record settings =
  LLM_MODEL :: string
  LLM_FALLBACK_MODELS :: "string list"

section \<open>Strings\<close>

definition newline :: string where
  "newline = [CHR 0x0A]"

text \<open>\<open>sep.join(parts)\<close>\<close>

fun join :: "string \<Rightarrow> string list \<Rightarrow> string" where
  "join sep [] = []"
| "join sep [x] = x"
| "join sep (x # y # ys) = x @ sep @ join sep (y # ys)"

text \<open>\<open>s.startswith(sub)\<close> and \<open>sub in s\<close> on strings.\<close>

definition starts_with :: "string \<Rightarrow> string \<Rightarrow> bool" where
  "starts_with sub s = (take (length sub) s = sub)"

primrec str_contains :: "string \<Rightarrow> string \<Rightarrow> bool" where
  "str_contains sub [] = (sub = [])"
| "str_contains sub (c # cs) = (starts_with sub (c # cs) \<or> str_contains sub cs)"

section \<open>The vector store client\<close>

text \<open>
  \<open>VectorService\<close> wraps the external vector database. Both database operations are
  parameters: \<open>add_texts\<close> completes (\<open>None\<close>) or raises, \<open>similarity_search\<close> returns the
  documents found or raises. The wrappers log and pass the outcome on unchanged.
\<close>

type_synonym db_add_texts = "string list \<Rightarrow> (string \<rightharpoonup> string) list \<Rightarrow> py_exception option"

type_synonym db_similarity_search = "string \<Rightarrow> int \<Rightarrow> py_exception + document list"

definition add_texts ::
  "db_add_texts \<Rightarrow> string list \<Rightarrow> (string \<rightharpoonup> string) list \<Rightarrow> py_exception option" where
  "add_texts vector_db_add_texts texts metadatas =
     (case vector_db_add_texts texts metadatas of
        None \<Rightarrow> None
      | Some e \<Rightarrow> Some e)"

definition search_similar ::
  "db_similarity_search \<Rightarrow> string \<Rightarrow> int \<Rightarrow> py_exception + document list" where
  "search_similar similarity_search question k = similarity_search question k"

section \<open>The RAG service\<close>

text \<open>
  \<open>RAGService.__init__\<close>: the model list is the primary model followed by the fallbacks,
  and one chat model object is built for each name, in the same order. The constructor
  of the external client is a parameter.
\<close>

definition RAGService_init :: "settings \<Rightarrow> (string \<Rightarrow> llm) \<Rightarrow> rag_service" where
  "RAGService_init cfg ChatGoogleGenerativeAI =
     (let names = LLM_MODEL cfg # LLM_FALLBACK_MODELS cfg
      in \<lparr>model_names = names, llms = map ChatGoogleGenerativeAI names\<rparr>)"

text \<open>\<open>SYSTEM_PROMPT\<close> with \<open>{context}\<close> and \<open>{question}\<close> filled in.\<close>

definition format_prompt :: "string \<Rightarrow> string \<Rightarrow> string" where
  "format_prompt context_text question =
     ''You are a helpful and professional AI assistant for an E-Commerce system.'' @ newline @
     newline @
     ''Answer the question based ONLY on the following context.'' @ newline @
     ''If the answer is not in the context, strictly say '' @ [CHR 0x22] @
     ''I don'' @ [CHR 0x27] @ ''t have enough information to answer that.'' @ [CHR 0x22] @ newline @
     ''Do not make up facts.'' @ newline @
     newline @
     ''Context:'' @ newline @
     context_text @ newline @
     newline @
     ''Question:'' @ newline @
     question @ newline"

text \<open>\<open>_format_docs\<close>: the page contents joined by a blank line.\<close>

definition format_docs :: "document list \<Rightarrow> string" where
  "format_docs docs = join (newline @ newline) (map page_content docs)"

text \<open>
  \<open>_deduplicate\<close>: the loop over \<open>docs\<close>, with the set \<open>seen\<close> and the list \<open>unique\<close>
  as loop state.
\<close>

fun deduplicate_loop :: "document list \<Rightarrow> string set \<Rightarrow> document list \<Rightarrow> document list" where
  "deduplicate_loop [] seen unique = unique"
| "deduplicate_loop (doc # docs) seen unique =
     (if page_content doc \<notin> seen
      then deduplicate_loop docs (insert (page_content doc) seen) (unique @ [doc])
      else deduplicate_loop docs seen unique)"

definition deduplicate :: "document list \<Rightarrow> document list" where
  "deduplicate docs = deduplicate_loop docs {} []"

text \<open>The test of the \<open>except\<close> branch: is the error a rate-limit error?\<close>

definition is_rate_limit :: "py_exception \<Rightarrow> bool" where
  "is_rate_limit e = (str_contains ''RESOURCE_EXHAUSTED'' (str e) \<or> str_contains ''429'' (str e))"

text \<open>\<open>chain = prompt | llm | StrOutputParser()\<close>, invoked on the context and the question.\<close>

definition chain_ainvoke :: "llm \<Rightarrow> string \<Rightarrow> string \<Rightarrow> py_exception + string" where
  "chain_ainvoke m context_text question = m (format_prompt context_text question)"

text \<open>The comprehension that builds the \<open>sources\<close> list.\<close>

definition source_of :: "document \<Rightarrow> source_entry" where
  "source_of doc =
     \<lparr>source = (case metadata doc ''source'' of None \<Rightarrow> ''unknown'' | Some s \<Rightarrow> s),
      content = take 200 (page_content doc) @ ''...''\<rparr>"

text \<open>
  The loop over \<open>zip(self.llms, self.model_names)\<close>. The result is the list of model names
  invoked (the \<open>Invoking model\<close> log lines, in order) and the outcome: the returned
  dictionary, or the exception raised. \<open>raise last_error\<close> with \<open>last_error = None\<close>
  (an empty model list) is Python's \<open>TypeError\<close>.
\<close>

fun fallback_loop ::
  "(llm \<times> string) list \<Rightarrow> string \<Rightarrow> string \<Rightarrow> document list \<Rightarrow> py_exception option
     \<Rightarrow> string list \<times> (py_exception + rag_answer)" where
  "fallback_loop [] context_text question unique_docs last_error =
     ([], case last_error of
            None \<Rightarrow> Inl (PyException ''exceptions must derive from BaseException'')
          | Some e \<Rightarrow> Inl e)"
| "fallback_loop ((m, model_name) # rest) context_text question unique_docs last_error =
     (case chain_ainvoke m context_text question of
        Inr text \<Rightarrow>
          ([model_name], Inr \<lparr>answer = text, sources = map source_of unique_docs\<rparr>)
      | Inl e \<Rightarrow>
          if is_rate_limit e
          then (let (invoked, outcome) = fallback_loop rest context_text question unique_docs (Some e)
                in (model_name # invoked, outcome))
          else ([model_name], Inl e))"

definition no_documents_answer :: string where
  "no_documents_answer = ''I couldn'' @ [CHR 0x27] @ ''t find any relevant documents to answer your question.''"

text \<open>
  \<open>generate_answer\<close>: retrieve, deduplicate, build the context, then run the fallback loop.
  An exception of the similarity search propagates.
\<close>

definition generate_answer ::
  "rag_service \<Rightarrow> db_similarity_search \<Rightarrow> string \<Rightarrow> int
     \<Rightarrow> string list \<times> (py_exception + rag_answer)" where
  "generate_answer svc similarity_search question k =
     (case search_similar similarity_search question k of
        Inl e \<Rightarrow> ([], Inl e)
      | Inr docs \<Rightarrow>
          if docs = []
          then ([], Inr \<lparr>answer = no_documents_answer, sources = []\<rparr>)
          else (let unique_docs = deduplicate docs;
                    context_text = format_docs unique_docs
                in fallback_loop (zip (llms svc) (model_names svc)) context_text question
                     unique_docs None))"

section \<open>The document service\<close>

text \<open>
  An uploaded file. The content type is absent when the part carries no
  \<open>Content-Type\<close> header; the body is whatever the PDF parser reads.
\<close>

record 'f upload_file =
  filename :: string
  content_type :: "string option"
  file_size :: "nat option"
  file_object :: 'f

text \<open>The configuration handed to the external \<open>RecursiveCharacterTextSplitter\<close>.\<close>

record text_splitter =
  chunk_size :: nat
  chunk_overlap :: nat
  separators :: "string list"

definition DocumentService_text_splitter :: text_splitter where
  "DocumentService_text_splitter =
     \<lparr>chunk_size = 1000, chunk_overlap = 200,
      separators = [newline @ newline, newline, '' '', []]\<rparr>"

text \<open>
  \<open>str.strip()\<close> removes leading and trailing whitespace (the characters below 256 for
  which \<open>str.isspace\<close> holds).
\<close>

definition py_isspace :: "char \<Rightarrow> bool" where
  "py_isspace c =
     (c \<in> set [CHR 0x09, CHR 0x0A, CHR 0x0B, CHR 0x0C, CHR 0x0D, CHR 0x1C, CHR 0x1D, CHR 0x1E,
               CHR 0x1F, CHR 0x20, CHR 0x85, CHR 0xA0])"

definition strip :: "string \<Rightarrow> string" where
  "strip s = rev (dropWhile py_isspace (rev (dropWhile py_isspace s)))"

text \<open>The loop over \<open>pdf_reader.pages\<close>; \<open>extract_text\<close> of a page may raise.\<close>

fun extract_pages ::
  "('p \<Rightarrow> py_exception + string) \<Rightarrow> 'p list \<Rightarrow> string \<Rightarrow> py_exception + string" where
  "extract_pages extract_text [] text_content = Inr text_content"
| "extract_pages extract_text (page # pages) text_content =
     (case extract_text page of
        Inl e \<Rightarrow> Inl e
      | Inr extracted \<Rightarrow>
          extract_pages extract_text pages
            (if extracted \<noteq> [] then text_content @ extracted @ newline else text_content))"

text \<open>
  \<open>process_file\<close>. The PDF parser (\<open>PdfReader\<close>, \<open>extract_text\<close>) and the splitter's
  \<open>split_text\<close> are external and are parameters.
\<close>

definition process_file ::
  "('f \<Rightarrow> py_exception + 'p list) \<Rightarrow> ('p \<Rightarrow> py_exception + string)
     \<Rightarrow> (text_splitter \<Rightarrow> string \<Rightarrow> string list) \<Rightarrow> 'f upload_file
     \<Rightarrow> http_exception + string list" where
  "process_file PdfReader extract_text split_text f =
     (if content_type f \<noteq> Some ''application/pdf''
      then Inl (HTTPException 400 ''Only PDF files are supported.'')
      else (case (case PdfReader (file_object f) of
                    Inl e \<Rightarrow> Inl e
                  | Inr pages \<Rightarrow> extract_pages extract_text pages []) of
              Inl e \<Rightarrow> Inl (HTTPException 500 (''Failed to process PDF: '' @ str e))
            | Inr text_content \<Rightarrow>
                if strip text_content = []
                then Inl (HTTPException 422
                            ''PDF contains no extractable text (may be scanned/image-based).'')
                else Inr (split_text DocumentService_text_splitter text_content)))"

section \<open>The HTTP endpoints\<close>

datatype document_response =
  DocumentResponse (response_filename: string) (response_content_type: string)
    (response_size: nat) (chunks_created: nat) (message: string)

datatype search_response = SearchResponse (response_query: string) (results: "string list")

text \<open>
  \<open>upload_document\<close>. The first component of the result lists the calls made to the
  store's add operation, each with its texts and metadata. A \<open>DocumentResponse\<close> needs a
  string as content type; without one its validation raises, which the handler turns
  into a 500 like any other exception.
\<close>

definition upload_document ::
  "('f \<Rightarrow> py_exception + 'p list) \<Rightarrow> ('p \<Rightarrow> py_exception + string)
     \<Rightarrow> (text_splitter \<Rightarrow> string \<Rightarrow> string list) \<Rightarrow> db_add_texts \<Rightarrow> 'f upload_file
     \<Rightarrow> (string list \<times> (string \<rightharpoonup> string) list) list \<times> (http_exception + document_response)" where
  "upload_document PdfReader extract_text split_text vector_db_add_texts f =
     (case process_file PdfReader extract_text split_text f of
        Inl h \<Rightarrow> ([], Inl h)
      | Inr chunks \<Rightarrow>
          (let metadatas = map (\<lambda>_. [''source'' \<mapsto> filename f]) chunks
           in (case add_texts vector_db_add_texts chunks metadatas of
                 Some e \<Rightarrow> ([(chunks, metadatas)], Inl (HTTPException 500 (str e)))
               | None \<Rightarrow>
                   (case content_type f of
                      None \<Rightarrow>
                        ([(chunks, metadatas)],
                         Inl (HTTPException 500 ''1 validation error for DocumentResponse''))
                    | Some ct \<Rightarrow>
                        ([(chunks, metadatas)],
                         Inr (DocumentResponse (filename f) ct
                                (case file_size f of None \<Rightarrow> 0 | Some n \<Rightarrow> n)
                                (length chunks)
                                ''File processed and embeddings stored successfully.''))))))"

text \<open>\<open>search_documents\<close>, and the request with its optional parameter \<open>k: int = 3\<close>.\<close>

definition search_documents ::
  "db_similarity_search \<Rightarrow> string \<Rightarrow> int \<Rightarrow> http_exception + search_response" where
  "search_documents similarity_search question k =
     (case search_similar similarity_search question k of
        Inr found \<Rightarrow> Inr (SearchResponse question (map page_content found))
      | Inl e \<Rightarrow> Inl (HTTPException 500 (str e)))"

definition post_search ::
  "db_similarity_search \<Rightarrow> string \<Rightarrow> int option \<Rightarrow> http_exception + search_response" where
  "post_search similarity_search question k_param =
     search_documents similarity_search question (case k_param of None \<Rightarrow> 3 | Some k \<Rightarrow> k)"

text \<open>
  The body of a chat request as sent, and the \<open>ChatRequest\<close> schema: \<open>query\<close> is required
  with \<open>min_length=1\<close>, \<open>k\<close> has \<open>default=3, ge=1, le=10\<close>. Validation reports the fields
  that fail.
\<close>

record chat_body =
  body_query :: "string option"
  body_k :: "int option"

datatype chat_request = ChatRequest (request_query: string) (request_k: int)

datatype validation_error = ValidationError (invalid_fields: "string list")

definition ChatRequest_validate :: "chat_body \<Rightarrow> validation_error + chat_request" where
  "ChatRequest_validate body =
     (let query_errors =
            (case body_query body of
               None \<Rightarrow> [''query'']
             | Some q \<Rightarrow> if length q < 1 then [''query''] else []);
          k_errors =
            (case body_k body of
               None \<Rightarrow> []
             | Some k \<Rightarrow> if k < 1 \<or> 10 < k then [''k''] else [])
      in if query_errors @ k_errors \<noteq> []
         then Inl (ValidationError (query_errors @ k_errors))
         else Inr (ChatRequest (case body_query body of None \<Rightarrow> [] | Some q \<Rightarrow> q)
                     (case body_k body of None \<Rightarrow> 3 | Some k \<Rightarrow> k)))"

text \<open>\<open>chat_with_docs\<close>: every exception of \<open>generate_answer\<close> becomes a 500.\<close>

definition chat_with_docs ::
  "rag_service \<Rightarrow> db_similarity_search \<Rightarrow> chat_request
     \<Rightarrow> string list \<times> (http_exception + rag_answer)" where
  "chat_with_docs svc similarity_search request =
     (let (invoked, outcome) =
            generate_answer svc similarity_search (request_query request) (request_k request)
      in (invoked,
          case outcome of
            Inr response \<Rightarrow> Inr \<lparr>answer = answer response, sources = sources response\<rparr>
          | Inl e \<Rightarrow> Inl (HTTPException 500 (str e))))"

text \<open>
  A chat request is validated against the schema before the handler runs; an invalid
  body is rejected without calling it.
\<close>

datatype 'a request_outcome = Rejected validation_error | Handled 'a

definition post_chat ::
  "rag_service \<Rightarrow> db_similarity_search \<Rightarrow> chat_body
     \<Rightarrow> (string list \<times> (http_exception + rag_answer)) request_outcome" where
  "post_chat svc similarity_search body =
     (case ChatRequest_validate body of
        Inl err \<Rightarrow> Rejected err
      | Inr request \<Rightarrow> Handled (chat_with_docs svc similarity_search request))"

section \<open>Notions used by the properties\<close>

text \<open>
  The chunk at position \<open>i\<close> is the first occurrence of its text: no chunk before it has
  the same \<open>page_content\<close>.
\<close>

definition first_occurrence :: "document list \<Rightarrow> nat \<Rightarrow> bool" where
  "first_occurrence docs i = (page_content (docs ! i) \<notin> set (map page_content (take i docs)))"

section \<open>Example inputs\<close>

definition shirt_a :: document where
  "shirt_a = \<lparr>page_content = ''blue shirt'', metadata = [''source'' \<mapsto> ''a.pdf'']\<rparr>"

definition shirt_b :: document where
  "shirt_b = \<lparr>page_content = ''blue shirt'', metadata = [''source'' \<mapsto> ''b.pdf'']\<rparr>"

definition hat_b :: document where
  "hat_b = \<lparr>page_content = ''red hat'', metadata = [''source'' \<mapsto> ''b.pdf'']\<rparr>"

definition note_plain :: document where
  "note_plain = \<lparr>page_content = ''free returns'', metadata = Map.empty\<rparr>"

definition three_chunks :: db_similarity_search where
  "three_chunks question k = Inr (take (nat k) [shirt_a, shirt_b, hat_b])"

definition four_chunks :: db_similarity_search where
  "four_chunks question k = Inr (take (nat k) [shirt_a, note_plain, shirt_b, hat_b])"

definition empty_store :: db_similarity_search where
  "empty_store question k = Inr []"

definition example_settings :: settings where
  "example_settings =
     \<lparr>LLM_MODEL = ''gemini-2.0-flash'',
      LLM_FALLBACK_MODELS = [''gemini-2.0-flash-lite'', ''gemini-2.5-flash'']\<rparr>"

text \<open>Clients: only the last model answers; every model is out of quota; the second is broken.\<close>

definition last_answers :: "string \<Rightarrow> llm" where
  "last_answers name prompt =
     (if name = ''gemini-2.5-flash'' then Inr ''We sell a blue shirt.''
      else Inl (PyException ''429 Too Many Requests''))"

definition all_exhausted :: "string \<Rightarrow> llm" where
  "all_exhausted name prompt = Inl (PyException (''RESOURCE_EXHAUSTED: '' @ name))"

definition second_broken :: "string \<Rightarrow> llm" where
  "second_broken name prompt =
     (if name = ''gemini-2.0-flash'' then Inl (PyException ''Error 429: quota'')
      else if name = ''gemini-2.0-flash-lite'' then Inl (PyException ''API key not valid'')
      else Inr ''unreachable'')"

definition first_answers :: "string \<Rightarrow> llm" where
  "first_answers name prompt = Inr ''We sell shirts and hats.''"

definition four_chunks_result :: rag_answer where
  "four_chunks_result =
     \<lparr>answer = ''We sell shirts and hats.'',
      sources = [\<lparr>source = ''a.pdf'', content = ''blue shirt...''\<rparr>,
                 \<lparr>source = ''unknown'', content = ''free returns...''\<rparr>,
                 \<lparr>source = ''b.pdf'', content = ''red hat...''\<rparr>]\<rparr>"

definition text_upload :: "unit upload_file" where
  "text_upload =
     \<lparr>filename = ''notes.txt'', content_type = Some ''text/plain'', file_size = Some 12,
      file_object = ()\<rparr>"

section \<open>Properties of the string operations\<close>

text \<open>\<open>str_contains sub s\<close> holds exactly when \<open>sub\<close> is a contiguous part of \<open>s\<close>.\<close>

lemma starts_with_iff: "starts_with sub s \<longleftrightarrow> (\<exists>post. s = sub @ post)"
proof
  assume "starts_with sub s"
  then have "s = sub @ drop (length sub) s"
    by (metis append_take_drop_id starts_with_def)
  then show "\<exists>post. s = sub @ post" ..
next
  assume "\<exists>post. s = sub @ post"
  then show "starts_with sub s" by (auto simp: starts_with_def)
qed

lemma str_contains_iff: "str_contains sub s \<longleftrightarrow> (\<exists>pre post. s = pre @ sub @ post)"
proof (induction s)
  case Nil
  show ?case by auto
next
  case (Cons c cs)
  show ?case
  proof
    assume "str_contains sub (c # cs)"
    then consider "starts_with sub (c # cs)" | "str_contains sub cs" by auto
    then show "\<exists>pre post. c # cs = pre @ sub @ post"
    proof cases
      case 1
      then obtain post where "c # cs = [] @ sub @ post" by (auto simp: starts_with_iff)
      then show ?thesis by blast
    next
      case 2
      with Cons.IH obtain pre post where "cs = pre @ sub @ post" by auto
      then have "c # cs = (c # pre) @ sub @ post" by simp
      then show ?thesis by blast
    qed
  next
    assume "\<exists>pre post. c # cs = pre @ sub @ post"
    then obtain pre post where e: "c # cs = pre @ sub @ post" by auto
    show "str_contains sub (c # cs)"
    proof (cases pre)
      case Nil
      with e have "starts_with sub (c # cs)" by (auto simp: starts_with_iff)
      then show ?thesis by simp
    next
      case (Cons p ps)
      with e have "cs = ps @ sub @ post" by simp
      with Cons.IH have "str_contains sub cs" by auto
      then show ?thesis by simp
    qed
  qed
qed

section \<open>Properties of deduplication\<close>

lemma deduplicate_loop_snoc:
  "deduplicate_loop (docs @ [d]) seen unique =
     deduplicate_loop docs seen unique @
       (if page_content d \<in> seen \<union> set (map page_content docs) then [] else [d])"
  by (induction docs arbitrary: seen unique) auto

lemma deduplicate_Nil: "deduplicate [] = []"
  by (simp add: deduplicate_def)

lemma deduplicate_snoc:
  "deduplicate (docs @ [d]) =
     deduplicate docs @ (if page_content d \<in> set (map page_content docs) then [] else [d])"
  using deduplicate_loop_snoc [of docs d "{}" "[]"] by (simp add: deduplicate_def)

lemma first_occurrence_append:
  "i < length docs \<Longrightarrow> first_occurrence (docs @ ds) i = first_occurrence docs i"
  by (simp add: first_occurrence_def nth_append)

lemma first_occurrence_last:
  "first_occurrence (docs @ [d]) (length docs) = (page_content d \<notin> set (map page_content docs))"
  by (simp add: first_occurrence_def)

lemma deduplicate_index:
  "deduplicate docs = map (\<lambda>i. docs ! i) (filter (first_occurrence docs) [0..<length docs])"
proof (induction docs rule: rev_induct)
  case Nil
  show ?case by (simp add: deduplicate_Nil)
next
  case (snoc d docs)
  have f: "filter (first_occurrence (docs @ [d])) [0..<length docs] =
           filter (first_occurrence docs) [0..<length docs]"
    by (rule filter_cong) (simp_all add: first_occurrence_append)
  have m: "map (\<lambda>i. (docs @ [d]) ! i) (filter (first_occurrence docs) [0..<length docs]) =
           map (\<lambda>i. docs ! i) (filter (first_occurrence docs) [0..<length docs])"
    by (rule map_cong) (simp_all add: nth_append)
  show ?case
    using snoc.IH f m
    by (simp add: deduplicate_snoc first_occurrence_last)
qed

lemma contents_deduplicate:
  "set (map page_content (deduplicate docs)) = set (map page_content docs)"
  by (induction docs rule: rev_induct) (auto simp: deduplicate_Nil deduplicate_snoc)

lemma distinct_deduplicate:
  "distinct (map page_content (deduplicate docs))"
proof (induction docs rule: rev_induct)
  case Nil
  show ?case by (simp add: deduplicate_Nil)
next
  case (snoc d docs)
  show ?case
  proof (cases "page_content d \<in> set (map page_content docs)")
    case True
    with snoc show ?thesis by (simp add: deduplicate_snoc)
  next
    case False
    then have "page_content d \<notin> set (map page_content (deduplicate docs))"
      by (simp only: contents_deduplicate not_False_eq_True)
    with snoc False show ?thesis by (simp add: deduplicate_snoc)
  qed
qed

lemma deduplicate_distinct_id:
  "distinct (map page_content docs) \<Longrightarrow> deduplicate docs = docs"
  by (induction docs rule: rev_induct) (auto simp: deduplicate_Nil deduplicate_snoc)

lemma deduplicate_idem: "deduplicate (deduplicate docs) = deduplicate docs"
  by (rule deduplicate_distinct_id) (rule distinct_deduplicate)

section \<open>Properties of the fallback loop\<close>

lemma fallback_loop_sources:
  "fallback_loop ps c q u le = (invoked, Inr r) \<Longrightarrow> sources r = map source_of u"
proof (induction ps arbitrary: le invoked)
  case Nil
  then show ?case by (simp split: option.splits)
next
  case (Cons p ps)
  obtain m name where p: "p = (m, name)" by (cases p)
  show ?case
  proof (cases "chain_ainvoke m c q")
    case (Inr generated)
    with Cons.prems p show ?thesis by auto
  next
    case (Inl e)
    show ?thesis
    proof (cases "is_rate_limit e")
      case True
      obtain inv' out' where rest: "fallback_loop ps c q u (Some e) = (inv', out')"
        by (cases "fallback_loop ps c q u (Some e)")
      with Cons.prems p Inl True have "out' = Inr r" by simp
      with rest Cons.IH show ?thesis by blast
    next
      case False
      with Cons.prems p Inl show ?thesis by simp
    qed
  qed
qed

lemma fallback_loop_last_error:
  "ps \<noteq> [] \<Longrightarrow> fallback_loop ps c q u le = fallback_loop ps c q u le'"
  by (cases ps) auto

lemma fallback_loop_skip:
  assumes "\<forall>(m, name) \<in> set earlier. \<exists>e. chain_ainvoke m c q = Inl e \<and> is_rate_limit e"
    and "rest \<noteq> []"
  shows "fallback_loop (earlier @ rest) c q u le =
           (map snd earlier @ fst (fallback_loop rest c q u le), snd (fallback_loop rest c q u le))"
  using assms
proof (induction earlier arbitrary: le)
  case Nil
  show ?case by simp
next
  case (Cons p earlier)
  obtain m name where p: "p = (m, name)" by (cases p)
  from Cons.prems p obtain e where e: "chain_ainvoke m c q = Inl e" "is_rate_limit e"
    by auto
  from Cons.prems have all: "\<forall>(m, name) \<in> set earlier. \<exists>e. chain_ainvoke m c q = Inl e \<and> is_rate_limit e"
    by simp
  have "fallback_loop (earlier @ rest) c q u (Some e) =
          (map snd earlier @ fst (fallback_loop rest c q u (Some e)), snd (fallback_loop rest c q u (Some e)))"
    by (rule Cons.IH [OF all Cons.prems(2)])
  also have "fallback_loop rest c q u (Some e) = fallback_loop rest c q u le"
    by (rule fallback_loop_last_error [OF Cons.prems(2)])
  finally show ?case using p e by simp
qed

lemma fallback_loop_exhausted:
  assumes "\<forall>(m, name) \<in> set ps. \<exists>e. chain_ainvoke m c q = Inl e \<and> is_rate_limit e"
    and "ps \<noteq> []"
    and "chain_ainvoke (fst (last ps)) c q = Inl e_last"
  shows "fallback_loop ps c q u le = (map snd ps, Inl e_last)"
  using assms
proof (induction ps arbitrary: le)
  case Nil
  then show ?case by simp
next
  case (Cons p ps)
  obtain m name where p: "p = (m, name)" by (cases p)
  from Cons.prems p obtain e where e: "chain_ainvoke m c q = Inl e" "is_rate_limit e"
    by auto
  show ?case
  proof (cases "ps = []")
    case True
    with Cons.prems p e show ?thesis by simp
  next
    case False
    from Cons.prems have all: "\<forall>(m, name) \<in> set ps. \<exists>e. chain_ainvoke m c q = Inl e \<and> is_rate_limit e"
      by simp
    from Cons.prems False have l: "chain_ainvoke (fst (last ps)) c q = Inl e_last" by simp
    have "fallback_loop ps c q u (Some e) = (map snd ps, Inl e_last)"
      by (rule Cons.IH [OF all False l])
    with p e show ?thesis by simp
  qed
qed

lemma generate_answer_retrieved:
  "search_similar sim q k = Inr docs \<Longrightarrow> docs \<noteq> [] \<Longrightarrow>
   generate_answer svc sim q k =
     fallback_loop (zip (llms svc) (model_names svc)) (format_docs (deduplicate docs)) q
       (deduplicate docs) None"
  by (simp add: generate_answer_def Let_def)

lemma RAGService_init_models:
  "model_names (RAGService_init cfg client) = LLM_MODEL cfg # LLM_FALLBACK_MODELS cfg"
  "llms (RAGService_init cfg client) = map client (LLM_MODEL cfg # LLM_FALLBACK_MODELS cfg)"
  by (simp_all add: RAGService_init_def)

lemma generate_answer_sources:
  assumes "generate_answer svc sim q k = (invoked, Inr r)"
    and "search_similar sim q k = Inr docs"
  shows "sources r = map source_of (deduplicate docs)"
proof (cases "docs = []")
  case True
  with assms show ?thesis by (auto simp: generate_answer_def deduplicate_Nil)
next
  case False
  with assms have "fallback_loop (zip (llms svc) (model_names svc)) (format_docs (deduplicate docs)) q
       (deduplicate docs) None = (invoked, Inr r)"
    by (simp add: generate_answer_retrieved)
  then show ?thesis by (rule fallback_loop_sources)
qed

section \<open>Evaluation on the example inputs\<close>

lemmas example_defs =
  shirt_a_def shirt_b_def hat_b_def note_plain_def three_chunks_def four_chunks_def
  empty_store_def example_settings_def

lemma four_chunks_answer:
  "generate_answer (RAGService_init example_settings first_answers) four_chunks ''shirts?'' 4 =
     ([''gemini-2.0-flash''], Inr four_chunks_result)"
  by (simp add: generate_answer_def search_similar_def RAGService_init_def deduplicate_def
        chain_ainvoke_def first_answers_def source_of_def four_chunks_result_def example_defs)

lemma two_chunks_answer:
  "generate_answer (RAGService_init example_settings first_answers) three_chunks ''shirts?'' 2 =
     ([''gemini-2.0-flash''],
      Inr \<lparr>answer = ''We sell shirts and hats.'',
           sources = [\<lparr>source = ''a.pdf'', content = ''blue shirt...''\<rparr>]\<rparr>)"
  by (simp add: generate_answer_def search_similar_def RAGService_init_def deduplicate_def
        chain_ainvoke_def first_answers_def source_of_def example_defs)

section \<open>Further properties\<close>

lemma later_duplicate_not_first:
  assumes "i < j" and "j < length docs" and "page_content (docs ! i) = page_content (docs ! j)"
  shows "\<not> first_occurrence docs j"
proof -
  from assms(1,2) have "take j docs ! i = docs ! i" and "i < length (take j docs)" by simp_all
  then have "docs ! i \<in> set (take j docs)" by (metis nth_mem)
  then have "page_content (docs ! i) \<in> set (map page_content (take j docs))" by simp
  with assms(3) show ?thesis by (simp add: first_occurrence_def)
qed

text \<open>The chat path validates \<open>k\<close>; the search path passes any \<open>k\<close> on.\<close>

lemma chat_k_validated:
  "q \<noteq> [] \<Longrightarrow> post_chat svc sim \<lparr>body_query = Some q, body_k = None\<rparr> =
     Handled (chat_with_docs svc sim (ChatRequest q 3))"
  "q \<noteq> [] \<Longrightarrow> 1 \<le> k \<Longrightarrow> k \<le> 10 \<Longrightarrow>
     post_chat svc sim \<lparr>body_query = Some q, body_k = Some k\<rparr> =
     Handled (chat_with_docs svc sim (ChatRequest q k))"
  "k < 1 \<or> 10 < k \<Longrightarrow>
     \<exists>err. post_chat svc sim \<lparr>body_query = qo, body_k = Some k\<rparr> = Rejected err"
  by (auto simp: post_chat_def ChatRequest_validate_def Let_def split: option.splits)

lemma search_k_not_validated:
  "post_search sim q None = search_documents sim q 3"
  "post_search sim q (Some k) = search_documents sim q k"
  by (simp_all add: post_search_def)

text \<open>On a PDF with extractable text, \<open>process_file\<close> returns what the external splitter returns.\<close>

lemma process_file_chunks:
  assumes "content_type f = Some ''application/pdf''"
    and "PdfReader (file_object f) = Inr pages"
    and "extract_pages extract_text pages [] = Inr text_content"
    and "strip text_content \<noteq> []"
  shows "process_file PdfReader extract_text split_text f =
           Inr (split_text DocumentService_text_splitter text_content)"
  using assms by (simp add: process_file_def)

section \<open>Claims\<close>

text \<open>
  C1. With the configured model list \<open>[A, B, C]\<close> and a non-empty retrieval, if the
  invocations of \<open>A\<close> and \<open>B\<close> each fail with a rate-limit error and the invocation of
  \<open>C\<close> succeeds, then \<open>generate_answer\<close> returns the text generated by \<open>C\<close>, and the
  models invoked are exactly \<open>A\<close>, \<open>B\<close>, \<open>C\<close>, in this order, each once.
\<close>

theorem fallback_third_model_answers:
  assumes "model_names svc = [A, B, C]" and "llms svc = [la, lb, lc]"
    and "search_similar sim q k = Inr docs" and "docs \<noteq> []"
    and "chain_ainvoke la (format_docs (deduplicate docs)) q = Inl ea" and "is_rate_limit ea"
    and "chain_ainvoke lb (format_docs (deduplicate docs)) q = Inl eb" and "is_rate_limit eb"
    and "chain_ainvoke lc (format_docs (deduplicate docs)) q = Inr generated"
  shows "fst (generate_answer svc sim q k) = [A, B, C] \<and>
         (\<exists>r. snd (generate_answer svc sim q k) = Inr r \<and> answer r = generated)"
  using assms by (simp add: generate_answer_retrieved)

theorem fallback_third_model_answers_witness:
  "fst (generate_answer (RAGService_init example_settings last_answers) three_chunks ''shirts?'' 3) =
     [''gemini-2.0-flash'', ''gemini-2.0-flash-lite'', ''gemini-2.5-flash''] \<and>
   (\<exists>r. snd (generate_answer (RAGService_init example_settings last_answers) three_chunks
              ''shirts?'' 3) = Inr r \<and> answer r = ''We sell a blue shirt.'')"
proof (rule fallback_third_model_answers
    [where la = "last_answers ''gemini-2.0-flash''" and lb = "last_answers ''gemini-2.0-flash-lite''"
       and lc = "last_answers ''gemini-2.5-flash''" and docs = "[shirt_a, shirt_b, hat_b]"
       and ea = "PyException ''429 Too Many Requests''"
       and eb = "PyException ''429 Too Many Requests''"])
  show "model_names (RAGService_init example_settings last_answers) =
          [''gemini-2.0-flash'', ''gemini-2.0-flash-lite'', ''gemini-2.5-flash'']"
    by (simp add: RAGService_init_models example_settings_def)
  show "llms (RAGService_init example_settings last_answers) =
          [last_answers ''gemini-2.0-flash'', last_answers ''gemini-2.0-flash-lite'',
           last_answers ''gemini-2.5-flash'']"
    by (simp add: RAGService_init_models example_settings_def)
  show "search_similar three_chunks ''shirts?'' 3 = Inr [shirt_a, shirt_b, hat_b]"
    by (simp add: search_similar_def three_chunks_def)
  show "[shirt_a, shirt_b, hat_b] \<noteq> []" by simp
  show "chain_ainvoke (last_answers ''gemini-2.0-flash'')
          (format_docs (deduplicate [shirt_a, shirt_b, hat_b])) ''shirts?'' =
        Inl (PyException ''429 Too Many Requests'')"
    by (simp add: chain_ainvoke_def last_answers_def)
  show "chain_ainvoke (last_answers ''gemini-2.0-flash-lite'')
          (format_docs (deduplicate [shirt_a, shirt_b, hat_b])) ''shirts?'' =
        Inl (PyException ''429 Too Many Requests'')"
    by (simp add: chain_ainvoke_def last_answers_def)
  show "is_rate_limit (PyException ''429 Too Many Requests'')"
    by (simp add: is_rate_limit_def starts_with_def)
  then show "is_rate_limit (PyException ''429 Too Many Requests'')" .
  show "chain_ainvoke (last_answers ''gemini-2.5-flash'')
          (format_docs (deduplicate [shirt_a, shirt_b, hat_b])) ''shirts?'' =
        Inr ''We sell a blue shirt.''"
    by (simp add: chain_ainvoke_def last_answers_def)
qed

text \<open>
  C2. With a non-empty retrieval, if the invocation of a model fails with an error that
  is not a rate-limit error (all models before it having failed with rate-limit errors,
  which is how the loop reaches it), then \<open>generate_answer\<close> raises that error, and no
  model after it in the list is invoked.
\<close>

theorem non_rate_limit_error_aborts:
  assumes "search_similar sim q k = Inr docs" and "docs \<noteq> []"
    and "zip (llms svc) (model_names svc) = earlier @ (m, name) # later"
    and "\<forall>(m', name') \<in> set earlier.
           \<exists>e'. chain_ainvoke m' (format_docs (deduplicate docs)) q = Inl e' \<and> is_rate_limit e'"
    and "chain_ainvoke m (format_docs (deduplicate docs)) q = Inl e"
    and "\<not> is_rate_limit e"
  shows "generate_answer svc sim q k = (map snd earlier @ [name], Inl e)"
proof -
  have "generate_answer svc sim q k =
          fallback_loop (earlier @ (m, name) # later) (format_docs (deduplicate docs)) q
            (deduplicate docs) None"
    using assms(1-3) by (simp add: generate_answer_retrieved)
  also have "\<dots> =
      (map snd earlier @
         fst (fallback_loop ((m, name) # later) (format_docs (deduplicate docs)) q
                (deduplicate docs) None),
       snd (fallback_loop ((m, name) # later) (format_docs (deduplicate docs)) q
              (deduplicate docs) None))"
    by (rule fallback_loop_skip [OF assms(4)]) simp
  also have "fallback_loop ((m, name) # later) (format_docs (deduplicate docs)) q
               (deduplicate docs) None = ([name], Inl e)"
    using assms(5,6) by simp
  finally show ?thesis by simp
qed

theorem non_rate_limit_error_aborts_witness:
  "generate_answer (RAGService_init example_settings second_broken) three_chunks ''shirts?'' 3 =
     ([''gemini-2.0-flash'', ''gemini-2.0-flash-lite''], Inl (PyException ''API key not valid''))"
proof -
  have "generate_answer (RAGService_init example_settings second_broken) three_chunks ''shirts?'' 3 =
     (map snd [(second_broken ''gemini-2.0-flash'', ''gemini-2.0-flash'')] @ [''gemini-2.0-flash-lite''],
      Inl (PyException ''API key not valid''))"
  proof (rule non_rate_limit_error_aborts
      [where docs = "[shirt_a, shirt_b, hat_b]"
         and m = "second_broken ''gemini-2.0-flash-lite''"
         and later = "[(second_broken ''gemini-2.5-flash'', ''gemini-2.5-flash'')]"])
    show "search_similar three_chunks ''shirts?'' 3 = Inr [shirt_a, shirt_b, hat_b]"
      by (simp add: search_similar_def three_chunks_def)
    show "[shirt_a, shirt_b, hat_b] \<noteq> []" by simp
    show "zip (llms (RAGService_init example_settings second_broken))
              (model_names (RAGService_init example_settings second_broken)) =
          [(second_broken ''gemini-2.0-flash'', ''gemini-2.0-flash'')] @
          (second_broken ''gemini-2.0-flash-lite'', ''gemini-2.0-flash-lite'') #
          [(second_broken ''gemini-2.5-flash'', ''gemini-2.5-flash'')]"
      by (simp add: RAGService_init_models example_settings_def)
    show "\<forall>(m', name') \<in> set [(second_broken ''gemini-2.0-flash'', ''gemini-2.0-flash'')].
            \<exists>e'. chain_ainvoke m' (format_docs (deduplicate [shirt_a, shirt_b, hat_b])) ''shirts?'' = Inl e'
                 \<and> is_rate_limit e'"
      by (simp add: chain_ainvoke_def second_broken_def is_rate_limit_def starts_with_def)
    show "chain_ainvoke (second_broken ''gemini-2.0-flash-lite'')
            (format_docs (deduplicate [shirt_a, shirt_b, hat_b])) ''shirts?'' =
          Inl (PyException ''API key not valid'')"
      by (simp add: chain_ainvoke_def second_broken_def)
    show "\<not> is_rate_limit (PyException ''API key not valid'')"
      by (simp add: is_rate_limit_def starts_with_def)
  qed
  then show ?thesis by simp
qed

text \<open>
  C3. If the similarity search returns no document, \<open>generate_answer\<close> returns the fixed
  answer with an empty list of sources, and invokes no model.
\<close>

theorem no_documents_no_model_call:
  assumes "search_similar sim q k = Inr []"
  shows "generate_answer svc sim q k = ([], Inr \<lparr>answer = no_documents_answer, sources = []\<rparr>)"
  using assms by (simp add: generate_answer_def)

theorem no_documents_no_model_call_witness:
  "generate_answer (RAGService_init example_settings first_answers) empty_store ''shirts?'' 3 =
     ([], Inr \<lparr>answer = no_documents_answer, sources = []\<rparr>)"
  by (rule no_documents_no_model_call) (simp add: search_similar_def empty_store_def)

text \<open>
  C4. With a non-empty retrieval, if every model of the configured list fails with a
  rate-limit error, then \<open>generate_answer\<close> raises the error of the last model of the
  list, after invoking every model in order.
\<close>

theorem all_models_rate_limited_raises_last:
  assumes "search_similar sim q k = Inr docs" and "docs \<noteq> []"
    and "length (llms svc) = length (model_names svc)" and "model_names svc \<noteq> []"
    and "\<forall>m \<in> set (llms svc).
           \<exists>e. chain_ainvoke m (format_docs (deduplicate docs)) q = Inl e \<and> is_rate_limit e"
    and "chain_ainvoke (last (llms svc)) (format_docs (deduplicate docs)) q = Inl e_last"
  shows "generate_answer svc sim q k = (model_names svc, Inl e_last)"
proof -
  let ?ps = "zip (llms svc) (model_names svc)"
  from assms(3,4) have ne: "llms svc \<noteq> []" by auto
  with assms(4) have ps: "?ps \<noteq> []" by (cases "llms svc"; cases "model_names svc") auto
  have all: "\<forall>(m, name) \<in> set ?ps.
               \<exists>e. chain_ainvoke m (format_docs (deduplicate docs)) q = Inl e \<and> is_rate_limit e"
    using assms(5) by (auto dest: set_zip_leftD)
  have "last ?ps = (last (llms svc), last (model_names svc))"
    using ne assms(3,4) by (simp add: last_zip)
  with assms(6) have l: "chain_ainvoke (fst (last ?ps)) (format_docs (deduplicate docs)) q = Inl e_last"
    by simp
  have "fallback_loop ?ps (format_docs (deduplicate docs)) q (deduplicate docs) None =
          (map snd ?ps, Inl e_last)"
    by (rule fallback_loop_exhausted [OF all ps l])
  with assms(1-3) show ?thesis by (simp add: generate_answer_retrieved)
qed

theorem all_models_rate_limited_raises_last_witness:
  "generate_answer (RAGService_init example_settings all_exhausted) three_chunks ''shirts?'' 3 =
     ([''gemini-2.0-flash'', ''gemini-2.0-flash-lite'', ''gemini-2.5-flash''],
      Inl (PyException ''RESOURCE_EXHAUSTED: gemini-2.5-flash''))"
proof -
  have "generate_answer (RAGService_init example_settings all_exhausted) three_chunks ''shirts?'' 3 =
     (model_names (RAGService_init example_settings all_exhausted),
      Inl (PyException ''RESOURCE_EXHAUSTED: gemini-2.5-flash''))"
  proof (rule all_models_rate_limited_raises_last [where docs = "[shirt_a, shirt_b, hat_b]"])
    show "search_similar three_chunks ''shirts?'' 3 = Inr [shirt_a, shirt_b, hat_b]"
      by (simp add: search_similar_def three_chunks_def)
    show "[shirt_a, shirt_b, hat_b] \<noteq> []" by simp
    show "length (llms (RAGService_init example_settings all_exhausted)) =
          length (model_names (RAGService_init example_settings all_exhausted))"
      by (simp add: RAGService_init_models)
    show "model_names (RAGService_init example_settings all_exhausted) \<noteq> []"
      by (simp add: RAGService_init_models)
    show "\<forall>m \<in> set (llms (RAGService_init example_settings all_exhausted)).
            \<exists>e. chain_ainvoke m (format_docs (deduplicate [shirt_a, shirt_b, hat_b])) ''shirts?'' = Inl e
                \<and> is_rate_limit e"
      by (simp add: RAGService_init_models example_settings_def chain_ainvoke_def
            all_exhausted_def is_rate_limit_def starts_with_def)
    show "chain_ainvoke (last (llms (RAGService_init example_settings all_exhausted)))
            (format_docs (deduplicate [shirt_a, shirt_b, hat_b])) ''shirts?'' =
          Inl (PyException ''RESOURCE_EXHAUSTED: gemini-2.5-flash'')"
      by (simp add: RAGService_init_models example_settings_def chain_ainvoke_def all_exhausted_def)
  qed
  then show ?thesis by (simp add: RAGService_init_models example_settings_def)
qed

text \<open>
  C5. Deduplication keeps exactly the chunks that are the first occurrence of their
  text, in the order of the input, and applying it twice gives the same list as applying
  it once.
\<close>

theorem deduplicate_keeps_first_occurrences:
  "deduplicate docs = map (\<lambda>i. docs ! i) (filter (first_occurrence docs) [0..<length docs]) \<and>
   deduplicate (deduplicate docs) = deduplicate docs"
  using deduplicate_index [of docs] deduplicate_idem [of docs] by (rule conjI)

theorem deduplicate_keeps_first_occurrences_witness:
  "deduplicate [shirt_a, shirt_b, hat_b, shirt_a] = [shirt_a, hat_b] \<and>
   deduplicate (deduplicate [shirt_a, shirt_b, hat_b, shirt_a]) =
     deduplicate [shirt_a, shirt_b, hat_b, shirt_a]"
proof -
  let ?docs = "[shirt_a, shirt_b, hat_b, shirt_a]"
  have kept: "map (\<lambda>i. ?docs ! i) (filter (first_occurrence ?docs) [0..<length ?docs]) =
              [shirt_a, hat_b]"
    by (simp add: first_occurrence_def shirt_a_def shirt_b_def hat_b_def)
  from deduplicate_keeps_first_occurrences [of ?docs]
  have "deduplicate ?docs =
          map (\<lambda>i. ?docs ! i) (filter (first_occurrence ?docs) [0..<length ?docs])"
    and "deduplicate (deduplicate ?docs) = deduplicate ?docs"
    by (rule conjunct1, rule conjunct2)
  with kept show ?thesis by (simp only:)
qed

text \<open>
  C6. An upload whose content type is not \<open>application/pdf\<close> fails with status 400, and
  the store's add operation is not called.
\<close>

theorem non_pdf_upload_rejected:
  assumes "content_type f \<noteq> Some ''application/pdf''"
  shows "fst (upload_document PdfReader extract_text split_text vector_db_add_texts f) = [] \<and>
         (\<exists>h. snd (upload_document PdfReader extract_text split_text vector_db_add_texts f) = Inl h \<and>
              status_code h = 400)"
  using assms by (simp add: upload_document_def process_file_def)

theorem non_pdf_upload_rejected_witness:
  "content_type text_upload \<noteq> Some ''application/pdf'' \<and>
   fst (upload_document (\<lambda>u. Inr [u]) (\<lambda>u. Inr ''hello'') (\<lambda>cfg t. [t]) (\<lambda>texts metas. None)
          text_upload) = [] \<and>
   (\<exists>h. snd (upload_document (\<lambda>u. Inr [u]) (\<lambda>u. Inr ''hello'') (\<lambda>cfg t. [t])
                (\<lambda>texts metas. None) text_upload) = Inl h \<and> status_code h = 400)"
proof -
  have h: "content_type text_upload \<noteq> Some ''application/pdf''"
    by (simp add: text_upload_def)
  show ?thesis
    using h non_pdf_upload_rejected [OF h, of "\<lambda>u. Inr [u]" "\<lambda>u. Inr ''hello''" "\<lambda>cfg t. [t]"
        "\<lambda>texts metas. None"]
    by simp
qed

text \<open>
  C7. The result count \<open>k\<close> of a search request is not bounded to 1..10: the search
  request with \<open>k = 11\<close> is not rejected, the similarity search runs with it and the
  chunks found are returned.
\<close>

theorem search_accepts_k_out_of_range:
  "post_search three_chunks ''shirts?'' (Some 11) =
     Inr (SearchResponse ''shirts?'' [''blue shirt'', ''blue shirt'', ''red hat''])"
  by (simp add: post_search_def search_documents_def search_similar_def example_defs)

text \<open>
  C8. When \<open>generate_answer\<close> succeeds, the list of sources has one entry for each
  deduplicated chunk, in the same order; the entry holds the chunk's source filename, or
  \<open>unknown\<close> when the metadata has none, and the first 200 characters at most of the
  chunk's text followed by three dots.
\<close>

theorem sources_follow_deduplicated_chunks:
  assumes "generate_answer svc sim q k = (invoked, Inr r)"
    and "search_similar sim q k = Inr docs"
  shows "length (sources r) = length (deduplicate docs) \<and>
         (\<forall>i < length (deduplicate docs).
            source (sources r ! i) =
              (case metadata (deduplicate docs ! i) ''source'' of
                 None \<Rightarrow> ''unknown'' | Some s \<Rightarrow> s) \<and>
            content (sources r ! i) = take 200 (page_content (deduplicate docs ! i)) @ ''...'' \<and>
            length (take 200 (page_content (deduplicate docs ! i))) \<le> 200)"
  using generate_answer_sources [OF assms] by (simp add: source_of_def)

theorem sources_follow_deduplicated_chunks_witness:
  "length (sources four_chunks_result) = 3 \<and>
   source (sources four_chunks_result ! 0) = ''a.pdf'' \<and>
   content (sources four_chunks_result ! 0) = ''blue shirt...'' \<and>
   source (sources four_chunks_result ! 1) = ''unknown'' \<and>
   content (sources four_chunks_result ! 1) = ''free returns...'' \<and>
   source (sources four_chunks_result ! 2) = ''b.pdf'' \<and>
   content (sources four_chunks_result ! 2) = ''red hat...''"
proof -
  let ?docs = "[shirt_a, note_plain, shirt_b, hat_b]"
  have s: "search_similar four_chunks ''shirts?'' 4 = Inr ?docs"
    by (simp add: search_similar_def four_chunks_def)
  have d: "deduplicate ?docs = [shirt_a, note_plain, hat_b]"
    by (simp add: deduplicate_def example_defs)
  from sources_follow_deduplicated_chunks [OF four_chunks_answer s]
  have len: "length (sources four_chunks_result) = length (deduplicate ?docs)"
    and each: "\<And>i. i < length (deduplicate ?docs) \<Longrightarrow>
           source (sources four_chunks_result ! i) =
             (case metadata (deduplicate ?docs ! i) ''source'' of
                None \<Rightarrow> ''unknown'' | Some s \<Rightarrow> s) \<and>
           content (sources four_chunks_result ! i) =
             take 200 (page_content (deduplicate ?docs ! i)) @ ''...''"
    by simp_all
  from len have "length (sources four_chunks_result) = 3"
    by (simp add: d)
  moreover from each [of 0, unfolded d]
  have "source (sources four_chunks_result ! 0) = ''a.pdf'' \<and>
        content (sources four_chunks_result ! 0) = ''blue shirt...''"
    by (simp add: shirt_a_def)
  moreover from each [of 1, unfolded d]
  have "source (sources four_chunks_result ! 1) = ''unknown'' \<and>
        content (sources four_chunks_result ! 1) = ''free returns...''"
    by (simp add: note_plain_def)
  moreover from each [of 2, unfolded d]
  have "source (sources four_chunks_result ! 2) = ''b.pdf'' \<and>
        content (sources four_chunks_result ! 2) = ''red hat...''"
    by (simp add: hat_b_def)
  ultimately show ?thesis by blast
qed

text \<open>
  C10, as stated, fails: the chunks \<open>shirt_a\<close> and \<open>shirt_b\<close> have the same text and
  different source filenames, only \<open>shirt_a\<close> survives, and yet the filename of
  \<open>shirt_b\<close> is in the list of sources, because the surviving chunk \<open>hat_b\<close> carries it.
\<close>

theorem later_duplicate_source_listed:
  "three_chunks ''shirts?'' 3 = Inr [shirt_a, shirt_b, hat_b] \<and>
   page_content shirt_a = page_content shirt_b \<and>
   metadata shirt_a ''source'' = Some ''a.pdf'' \<and>
   metadata shirt_b ''source'' = Some ''b.pdf'' \<and>
   generate_answer (RAGService_init example_settings first_answers) three_chunks ''shirts?'' 3 =
     ([''gemini-2.0-flash''],
      Inr \<lparr>answer = ''We sell shirts and hats.'',
           sources = [\<lparr>source = ''a.pdf'', content = ''blue shirt...''\<rparr>,
                      \<lparr>source = ''b.pdf'', content = ''red hat...''\<rparr>]\<rparr>)"
  by (simp add: generate_answer_def search_similar_def RAGService_init_def deduplicate_def
        chain_ainvoke_def first_answers_def source_of_def example_defs)

text \<open>
  C10, amended. Deduplication compares only the text of the chunks: when two retrieved
  chunks have the same text, whatever their metadata, the later one is not a first
  occurrence and contributes no entry; the sources are those of the first occurrences,
  in order. The later chunk's source filename is in the list of sources exactly when some
  first occurrence carries that filename.
\<close>

theorem later_duplicate_contributes_no_source:
  assumes "generate_answer svc sim q k = (invoked, Inr r)"
    and "search_similar sim q k = Inr docs"
    and "i < j" and "j < length docs"
    and "page_content (docs ! i) = page_content (docs ! j)"
  shows "sources r =
           map (\<lambda>n. source_of (docs ! n)) (filter (first_occurrence docs) [0..<length docs]) \<and>
         j \<notin> set (filter (first_occurrence docs) [0..<length docs]) \<and>
         (source (source_of (docs ! j)) \<in> set (map source (sources r)) \<longleftrightarrow>
            (\<exists>n < length docs. first_occurrence docs n \<and>
               source (source_of (docs ! n)) = source (source_of (docs ! j))))"
proof -
  have s: "sources r =
             map (\<lambda>n. source_of (docs ! n)) (filter (first_occurrence docs) [0..<length docs])"
    using generate_answer_sources [OF assms(1,2)] deduplicate_index [of docs]
    by (simp add: comp_def)
  have n: "j \<notin> set (filter (first_occurrence docs) [0..<length docs])"
    using later_duplicate_not_first [OF assms(3-5)] by simp
  have m: "source (source_of (docs ! j)) \<in> set (map source (sources r)) \<longleftrightarrow>
            (\<exists>n < length docs. first_occurrence docs n \<and>
               source (source_of (docs ! n)) = source (source_of (docs ! j)))"
    unfolding s by (auto simp: image_iff)
  from s n m show ?thesis by blast
qed

theorem later_duplicate_contributes_no_source_witness:
  "sources \<lparr>answer = ''We sell shirts and hats.'',
            sources = [\<lparr>source = ''a.pdf'', content = ''blue shirt...''\<rparr>]\<rparr> =
     map (\<lambda>n. source_of ([shirt_a, shirt_b] ! n))
       (filter (first_occurrence [shirt_a, shirt_b]) [0..<length [shirt_a, shirt_b]]) \<and>
   1 \<notin> set (filter (first_occurrence [shirt_a, shirt_b]) [0..<length [shirt_a, shirt_b]]) \<and>
   source (source_of ([shirt_a, shirt_b] ! 1)) = ''b.pdf'' \<and>
   ''b.pdf'' \<notin> set (map source [\<lparr>source = ''a.pdf'', content = ''blue shirt...''\<rparr>])"
proof -
  have s: "search_similar three_chunks ''shirts?'' 2 = Inr [shirt_a, shirt_b]"
    by (simp add: search_similar_def three_chunks_def)
  have t: "page_content ([shirt_a, shirt_b] ! 0) = page_content ([shirt_a, shirt_b] ! 1)"
    by (simp add: shirt_a_def shirt_b_def)
  have i: "(0::nat) < 1" and j: "1 < length [shirt_a, shirt_b]" by simp_all
  have b: "source (source_of ([shirt_a, shirt_b] ! 1)) = ''b.pdf''"
    by (simp add: source_of_def shirt_b_def)
  from later_duplicate_contributes_no_source [OF two_chunks_answer s i j t]
  have kept: "sources \<lparr>answer = ''We sell shirts and hats.'',
            sources = [\<lparr>source = ''a.pdf'', content = ''blue shirt...''\<rparr>]\<rparr> =
     map (\<lambda>n. source_of ([shirt_a, shirt_b] ! n))
       (filter (first_occurrence [shirt_a, shirt_b]) [0..<length [shirt_a, shirt_b]])"
    and dropped: "1 \<notin> set (filter (first_occurrence [shirt_a, shirt_b]) [0..<length [shirt_a, shirt_b]])"
    by (rule conjunct1, rule conjunct1 [OF conjunct2])
  have absent: "''b.pdf'' \<notin> set (map source [\<lparr>source = ''a.pdf'', content = ''blue shirt...''\<rparr>])"
    by simp
  show ?thesis by (intro conjI) (rule kept, rule dropped, rule b, rule absent)
qed

end
